theory Spec2Isabelle
  imports Complex_Main
begin

section \<open>Python floats\<close>

text \<open>
  The three signal computations of \<^verbatim>\<open>binance_lib.py\<close> and \<^verbatim>\<open>bin_lib_adv.py\<close> are embedded
  as HOL functions. Every \<^verbatim>\<open>raise\<close> of the source is a value \<open>Inl e\<close>, every \<^verbatim>\<open>except\<close> a case
  on it.

  A Python float is a binary64 value: a finite number, an infinity or NaN. The sign of a
  zero is not kept: the code only compares floats and divides by a value it has tested
  against 0, so the two zeros cannot be told apart by any result.
\<close>

datatype pyexc = ValueError | IndexError | TypeError | ZeroDivisionError | BinanceException

datatype pyfloat = Fin real | PInf | NInf | NaN

text \<open>The comparisons \<^verbatim>\<open><\<close>, \<^verbatim>\<open>>\<close>, \<^verbatim>\<open>==\<close> and \<^verbatim>\<open><=\<close>: every comparison with NaN is false.\<close>

fun py_lt :: "pyfloat \<Rightarrow> pyfloat \<Rightarrow> bool" where
  "py_lt NaN y = False"
| "py_lt x NaN = False"
| "py_lt (Fin a) (Fin b) = (a < b)"
| "py_lt (Fin a) PInf = True"
| "py_lt (Fin a) NInf = False"
| "py_lt PInf y = False"
| "py_lt NInf NInf = False"
| "py_lt NInf y = True"

definition py_gt :: "pyfloat \<Rightarrow> pyfloat \<Rightarrow> bool" where
  "py_gt x y = py_lt y x"

fun py_eq :: "pyfloat \<Rightarrow> pyfloat \<Rightarrow> bool" where
  "py_eq NaN y = False"
| "py_eq x NaN = False"
| "py_eq x y = (x = y)"

definition py_le :: "pyfloat \<Rightarrow> pyfloat \<Rightarrow> bool" where
  "py_le x y = (py_lt x y \<or> py_eq x y)"

text \<open>
  Rounding of a real result to binary64, to nearest with ties to even: \<open>rne\<close> rounds to an
  integer; \<open>round64\<close> rounds to a multiple of the spacing \<open>2 powi (e - 52)\<close> of the binade
  \<open>2 powi e \<le> |x| < 2 powi (e + 1)\<close> (below \<open>2 powi (- 1022)\<close> the spacing stays
  \<open>2 powi (- 1074)\<close>, the subnormal range), and a result of magnitude \<open>2 ^ 1024\<close> or more is
  an infinity.
\<close>

definition rne :: "real \<Rightarrow> int" where
  "rne z = (let f = \<lfloor>z\<rfloor>; d = z - of_int f in
            if d < 1 / 2 then f else if 1 / 2 < d then f + 1
            else if even f then f else f + 1)"

definition round64 :: "real \<Rightarrow> pyfloat" where
  "round64 x =
     (if x = 0 then Fin 0
      else
        let e = max \<lfloor>log 2 \<bar>x\<bar>\<rfloor> (- 1022);
            q = 2 powi (e - 52);
            y = of_int (rne (x / q)) * q
        in if 2 ^ 1024 \<le> \<bar>y\<bar> then (if 0 < x then PInf else NInf) else Fin y)"

text \<open>The float operations the classifiers use: \<^verbatim>\<open>-\<close>, \<^verbatim>\<open>abs\<close>, \<^verbatim>\<open>*\<close> and \<^verbatim>\<open>/\<close>.\<close>

fun py_sub :: "pyfloat \<Rightarrow> pyfloat \<Rightarrow> pyfloat" where
  "py_sub NaN y = NaN"
| "py_sub x NaN = NaN"
| "py_sub (Fin a) (Fin b) = round64 (a - b)"
| "py_sub (Fin a) PInf = NInf"
| "py_sub (Fin a) NInf = PInf"
| "py_sub PInf PInf = NaN"
| "py_sub PInf y = PInf"
| "py_sub NInf NInf = NaN"
| "py_sub NInf y = NInf"

fun py_abs :: "pyfloat \<Rightarrow> pyfloat" where
  "py_abs (Fin a) = Fin \<bar>a\<bar>"
| "py_abs PInf = PInf"
| "py_abs NInf = PInf"
| "py_abs NaN = NaN"

fun py_mul :: "pyfloat \<Rightarrow> pyfloat \<Rightarrow> pyfloat" where
  "py_mul NaN y = NaN"
| "py_mul x NaN = NaN"
| "py_mul (Fin a) (Fin b) = round64 (a * b)"
| "py_mul (Fin a) PInf = (if a = 0 then NaN else if 0 < a then PInf else NInf)"
| "py_mul (Fin a) NInf = (if a = 0 then NaN else if 0 < a then NInf else PInf)"
| "py_mul PInf (Fin b) = (if b = 0 then NaN else if 0 < b then PInf else NInf)"
| "py_mul NInf (Fin b) = (if b = 0 then NaN else if 0 < b then NInf else PInf)"
| "py_mul PInf PInf = PInf"
| "py_mul PInf NInf = NInf"
| "py_mul NInf PInf = NInf"
| "py_mul NInf NInf = PInf"

text \<open>\<^verbatim>\<open>x / y\<close>: Python raises ZeroDivisionError for a zero divisor, whatever \<open>x\<close> is.\<close>

fun py_truediv :: "pyfloat \<Rightarrow> pyfloat \<Rightarrow> pyexc + pyfloat" where
  "py_truediv x (Fin b) =
     (if b = 0 then Inl ZeroDivisionError
      else (case x of
              Fin a \<Rightarrow> Inr (round64 (a / b))
            | PInf \<Rightarrow> Inr (if 0 < b then PInf else NInf)
            | NInf \<Rightarrow> Inr (if 0 < b then NInf else PInf)
            | NaN \<Rightarrow> Inr NaN))"
| "py_truediv NaN y = Inr NaN"
| "py_truediv x NaN = Inr NaN"
| "py_truediv (Fin a) y = Inr (Fin 0)"
| "py_truediv x y = Inr NaN"

text \<open>
  \<^verbatim>\<open>sum(xs) / len(xs)\<close>, ZeroDivisionError on the empty list. The additions of \<^verbatim>\<open>sum\<close>, from
  0 and from left to right, and the division by the length are taken exactly on finite
  values: CPython's summation and its roundings differ between versions and decide the
  last bits of an average, not which values enter it. Infinities and NaN propagate as in
  binary64.
\<close>

fun exact_add :: "pyfloat \<Rightarrow> pyfloat \<Rightarrow> pyfloat" where
  "exact_add NaN y = NaN"
| "exact_add x NaN = NaN"
| "exact_add (Fin a) (Fin b) = Fin (a + b)"
| "exact_add (Fin a) y = y"
| "exact_add x (Fin b) = x"
| "exact_add PInf PInf = PInf"
| "exact_add NInf NInf = NInf"
| "exact_add x y = NaN"

definition py_sum :: "pyfloat list \<Rightarrow> pyfloat" where
  "py_sum xs = foldl exact_add (Fin 0) xs"

fun exact_div_len :: "pyfloat \<Rightarrow> nat \<Rightarrow> pyfloat" where
  "exact_div_len (Fin s) n = Fin (s / real n)"
| "exact_div_len x n = x"

definition py_mean :: "pyfloat list \<Rightarrow> pyexc + pyfloat" where
  "py_mean xs = (if length xs = 0 then Inl ZeroDivisionError
                 else Inr (exact_div_len (py_sum xs) (length xs)))"

section \<open>Cells, rows and slices\<close>

text \<open>
  A cell of a kline row as \<^verbatim>\<open>float()\<close> sees it: \<open>Num f\<close> is text (or a number) that
  \<^verbatim>\<open>float()\<close> converts, to \<open>f\<close>, which is an infinity or NaN for text such as \<^verbatim>\<open>'inf'\<close> and
  \<^verbatim>\<open>'nan'\<close>; \<open>Junk\<close> is text it rejects with ValueError; \<open>Null\<close> is a cell that is neither
  text nor a number (a JSON null), which it rejects with TypeError. A row is the list of
  its cells; a row that is no list at all raises TypeError at every index, as a row of
  \<open>Null\<close> cells does.
\<close>

datatype field = Num pyfloat | Junk | Null

type_synonym kline = "field list"

fun py_float :: "field \<Rightarrow> pyexc + pyfloat" where
  "py_float (Num f) = Inr f"
| "py_float Junk = Inl ValueError"
| "py_float Null = Inl TypeError"

text \<open>\<^verbatim>\<open>xs[i]\<close> for a constant index \<open>i \<ge> 0\<close>: IndexError when the row is too short.\<close>

definition py_index :: "'a list \<Rightarrow> nat \<Rightarrow> pyexc + 'a" where
  "py_index xs i = (if i < length xs then Inr (xs ! i) else Inl IndexError)"

text \<open>\<^verbatim>\<open>float(kline[i])\<close>.\<close>

definition float_at :: "kline \<Rightarrow> nat \<Rightarrow> pyexc + pyfloat" where
  "float_at kline i = (case py_index kline i of Inl e \<Rightarrow> Inl e | Inr c \<Rightarrow> py_float c)"

text \<open>
  \<^verbatim>\<open>[float(kline[i]) for kline in klines]\<close>: the comprehension stops at the first cell that
  raises, and the exception leaves it.
\<close>

fun float_column :: "nat \<Rightarrow> kline list \<Rightarrow> pyexc + pyfloat list" where
  "float_column i [] = Inr []"
| "float_column i (kline # klines) =
     (case float_at kline i of
        Inl e \<Rightarrow> Inl e
      | Inr v \<Rightarrow> (case float_column i klines of Inl e \<Rightarrow> Inl e | Inr vs \<Rightarrow> Inr (v # vs)))"

text \<open>\<^verbatim>\<open>xs[i:]\<close> and \<^verbatim>\<open>xs[:j]\<close> for any integer bound, negative bounds counting from the end.\<close>

definition slice_from :: "int \<Rightarrow> 'a list \<Rightarrow> 'a list" where
  "slice_from i xs = (if 0 \<le> i then drop (nat i) xs else drop (length xs - nat (- i)) xs)"

definition slice_to :: "int \<Rightarrow> 'a list \<Rightarrow> 'a list" where
  "slice_to j xs = (if 0 \<le> j then take (nat j) xs else take (length xs - nat (- j)) xs)"

text \<open>
  The operands of the one \<^verbatim>\<open>+\<close> the code applies to values of two different types
  (\<^verbatim>\<open>"Candele analizzate: " + len(closing_volumes)\<close>): Python concatenates two strings,
  adds two integers, and raises TypeError for a string and an integer.
\<close>

datatype pyval = PStr string | PInt int

fun py_add :: "pyval \<Rightarrow> pyval \<Rightarrow> pyexc + pyval" where
  "py_add (PStr a) (PStr b) = Inr (PStr (a @ b))"
| "py_add (PInt a) (PInt b) = Inr (PInt (a + b))"
| "py_add (PStr a) (PInt b) = Inl TypeError"
| "py_add (PInt a) (PStr b) = Inl TypeError"

text \<open>\<^verbatim>\<open>symbol.upper()\<close> on the ASCII letters of a trading symbol.\<close>

definition upper_char :: "char \<Rightarrow> char" where
  "upper_char c =
     (case map_of (zip ''abcdefghijklmnopqrstuvwxyz'' ''ABCDEFGHIJKLMNOPQRSTUVWXYZ'') c of
        None \<Rightarrow> c
      | Some u \<Rightarrow> u)"

definition py_upper :: "string \<Rightarrow> string" where
  "py_upper s = map upper_char s"

section \<open>The market-data provider and what a call leaves behind\<close>

type_synonym ticker = "(string \<times> field) list"

text \<open>
  Modelled from the spec: the external market-data client (python-binance's \<^verbatim>\<open>Client\<close>),
  which is not code of this repository. \<open>klines_of m s\<close> is the daily history of symbol
  \<open>s\<close>, oldest first, the last row being the current, not-yet-closed period, or the
  exception the client raises; \<open>ticker_of m s\<close> is the dictionary \<^verbatim>\<open>get_symbol_ticker\<close>
  answers (an association list), or the exception.
\<close>

record market =
  klines_of :: "string \<Rightarrow> pyexc + kline list"
  ticker_of :: "string \<Rightarrow> pyexc + ticker"

text \<open>
  Modelled from the spec: \<^verbatim>\<open>client.get_klines(symbol=s, interval='1d', limit=n)\<close> answers the
  \<open>n\<close> most recent rows of the history, fewer when the history is shorter (the source says
  so at each call: "Il limite ci da le N candele piu recenti").
\<close>

definition get_klines :: "market \<Rightarrow> string \<Rightarrow> int \<Rightarrow> pyexc + kline list" where
  "get_klines m s limit =
     (case klines_of m s of
        Inl e \<Rightarrow> Inl e
      | Inr history \<Rightarrow> Inr (drop (length history - nat limit) history))"

text \<open>
  What a call does besides returning: the requests it sends to the provider and the lines
  it prints. A printed line is kept as its kind and the values at hand when it is printed,
  not as its wording.
\<close>

datatype message =
    Periods_invalid
  | Lookback_invalid
  | Insufficient_history int string nat
  | Failed string pyexc
  | Row_unparsed kline pyexc
  | Unexpected_ticker string ticker
  | Text pyval

datatype event =
    Request_klines string int
  | Request_ticker string
  | Print message

section \<open>binance\_lib.py\<close>

text \<open>\<^verbatim>\<open>get_binance_price_pb\<close>: the current price, or None.\<close>

definition get_binance_price_pb :: "market \<Rightarrow> string \<Rightarrow> pyfloat option \<times> event list" where
  "get_binance_price_pb m symbol =
     (let req = Request_ticker (py_upper symbol) in
      case ticker_of m (py_upper symbol) of
        Inl e \<Rightarrow> (None, [req, Print (Failed symbol e)])
      | Inr ticker \<Rightarrow>
          if ticker \<noteq> [] \<and> map_of ticker ''price'' \<noteq> None then
            (case py_float (the (map_of ticker ''price'')) of
               Inl e \<Rightarrow> (None, [req, Print (Failed symbol e)])
             | Inr price \<Rightarrow> (Some price, [req]))
          else (None, [req, Print (Unexpected_ticker symbol ticker)]))"

text \<open>\<^verbatim>\<open>get_moving_averages\<close>: the pair (short SMA, long SMA), or (None, None).\<close>

definition get_moving_averages ::
  "market \<Rightarrow> string \<Rightarrow> int \<Rightarrow> int \<Rightarrow> (pyfloat option \<times> pyfloat option) \<times> event list" where
  "get_moving_averages m symbol short_period long_period =
     (if short_period \<le> 0 \<or> long_period \<le> 0 \<or> short_period > long_period then
        ((None, None), [Print Periods_invalid])
      else
        let req = Request_klines (py_upper symbol) long_period in
        case get_klines m (py_upper symbol) long_period of
          Inl e \<Rightarrow> ((None, None), [req, Print (Failed symbol e)])
        | Inr klines \<Rightarrow>
            if klines = [] \<or> int (length klines) < long_period then
              ((None, None), [req, Print (Insufficient_history long_period symbol (length klines))])
            else
              (case float_column 4 klines of
                 Inl e \<Rightarrow> ((None, None), [req, Print (Failed symbol e)])
               | Inr closing_prices \<Rightarrow>
                   (case py_mean closing_prices of
                      Inl e \<Rightarrow> ((None, None), [req, Print (Failed symbol e)])
                    | Inr long_sma \<Rightarrow>
                        let short_period_prices = slice_from (- short_period) closing_prices in
                        (case py_mean short_period_prices of
                           Inl e \<Rightarrow> ((None, None), [req, Print (Failed symbol e)])
                         | Inr short_sma \<Rightarrow> ((Some short_sma, Some long_sma), [req])))))"

text \<open>
  \<^verbatim>\<open>generate_crossover_signal\<close>. Its local \<^verbatim>\<open>relative_difference_percent\<close> is
  \<^verbatim>\<open>(abs(short_ma - long_ma) / long_ma) * 100\<close>, each operation rounded. The function has no
  handler of its own: an exception of the division would leave it.
\<close>

definition relative_difference_percent :: "pyfloat \<Rightarrow> pyfloat \<Rightarrow> pyexc + pyfloat" where
  "relative_difference_percent short_ma long_ma =
     (case py_truediv (py_abs (py_sub short_ma long_ma)) long_ma of
        Inl e \<Rightarrow> Inl e
      | Inr ratio \<Rightarrow> Inr (py_mul ratio (Fin 100)))"

definition generate_crossover_signal ::
  "pyfloat option \<Rightarrow> pyfloat option \<Rightarrow> pyfloat \<Rightarrow> pyexc + string" where
  "generate_crossover_signal short_ma long_ma proximity_threshold_percent =
     (case (short_ma, long_ma) of
        (None, _) \<Rightarrow> Inr ''Dati MA non disponibili''
      | (_, None) \<Rightarrow> Inr ''Dati MA non disponibili''
      | (Some s, Some l) \<Rightarrow>
          if py_eq l (Fin 0) then Inr ''Dati MA non validi (MA lunga = 0)''
          else
            let difference = py_sub s l in
            (case relative_difference_percent s l of
               Inl e \<Rightarrow> Inl e
             | Inr rel \<Rightarrow>
                 if py_gt rel proximity_threshold_percent then
                   (if py_gt difference (Fin 0) then Inr ''Rialzista'' else Inr ''Ribassista'')
                 else Inr ''Hold''))"

text \<open>
  The \<^verbatim>\<open>for kline in klines\<close> loop of \<^verbatim>\<open>generate_breakout_signal\<close>, from the running
  \<open>highest_high\<close> and \<open>lowest_low\<close>: a row whose high or low raises ValueError or IndexError
  is reported and skipped; any other exception leaves the loop.
\<close>

fun scan_klines ::
  "kline list \<Rightarrow> pyfloat \<Rightarrow> pyfloat \<Rightarrow> (pyexc + pyfloat \<times> pyfloat) \<times> event list" where
  "scan_klines [] highest_high lowest_low = (Inr (highest_high, lowest_low), [])"
| "scan_klines (kline # klines) highest_high lowest_low =
     (case (case float_at kline 2 of
              Inl e \<Rightarrow> Inl e
            | Inr high \<Rightarrow> (case float_at kline 3 of Inl e \<Rightarrow> Inl e | Inr lo \<Rightarrow> Inr (high, lo))) of
        Inr (high, lo) \<Rightarrow>
          scan_klines klines
            (if py_gt high highest_high then high else highest_high)
            (if py_lt lo lowest_low then lo else lowest_low)
      | Inl e \<Rightarrow>
          if e = ValueError \<or> e = IndexError then
            (let (r, out) = scan_klines klines highest_high lowest_low
             in (r, Print (Row_unparsed kline e) # out))
          else (Inl e, []))"

text \<open>The final comparison of \<^verbatim>\<open>generate_breakout_signal\<close> (its last \<^verbatim>\<open>if/elif/else\<close>).\<close>

definition breakout_label :: "pyfloat \<Rightarrow> pyfloat \<Rightarrow> pyfloat \<Rightarrow> string" where
  "breakout_label current_price highest_high lowest_low =
     (if py_gt current_price highest_high then ''Breakout Rialzista''
      else if py_lt current_price lowest_low then ''Breakout Ribassista''
      else ''Consolidamento'')"

text \<open>
  \<^verbatim>\<open>generate_breakout_signal\<close>: a label only; the extremes stay inside the call. The scan
  starts from \<^verbatim>\<open>0.0\<close> and \<^verbatim>\<open>float('inf')\<close>.
\<close>

definition generate_breakout_signal :: "market \<Rightarrow> string \<Rightarrow> int \<Rightarrow> string \<times> event list" where
  "generate_breakout_signal m symbol lookback_period =
     (if lookback_period \<le> 0 then (''Errore: Il lookback period deve essere positivo.'', [])
      else
        let req = Request_klines (py_upper symbol) lookback_period in
        case get_klines m (py_upper symbol) lookback_period of
          Inl e \<Rightarrow> (''Errore interno nel calcolo breakout.'', [req, Print (Failed symbol e)])
        | Inr klines \<Rightarrow>
            if klines = [] \<or> int (length klines) < lookback_period then
              (''Dati storici insufficienti per breakout'',
               [req, Print (Insufficient_history lookback_period symbol (length klines))])
            else
              (case scan_klines klines (Fin 0) PInf of
                 (Inl e, out) \<Rightarrow>
                   (''Errore interno nel calcolo breakout.'', req # out @ [Print (Failed symbol e)])
               | (Inr (highest_high, lowest_low), out) \<Rightarrow>
                   (case get_binance_price_pb m symbol of
                      (None, out') \<Rightarrow>
                        (''Errore nel recupero prezzo attuale per breakout'', req # out @ out')
                    | (Some current_price, out') \<Rightarrow>
                        (breakout_label current_price highest_high lowest_low, req # out @ out'))))"

section \<open>bin\_lib\_adv.py\<close>

text \<open>\<^verbatim>\<open>get_average_historical_volume\<close>: the mean volume of the closed candles, or None.\<close>

definition get_average_historical_volume ::
  "market \<Rightarrow> string \<Rightarrow> int \<Rightarrow> pyfloat option \<times> event list" where
  "get_average_historical_volume m symbol lookback_period =
     (if lookback_period \<le> 0 then (None, [Print Lookback_invalid])
      else
        let req = Request_klines (py_upper symbol) (lookback_period + 1) in
        case get_klines m (py_upper symbol) (lookback_period + 1) of
          Inl e \<Rightarrow> (None, [req, Print (Failed symbol e)])
        | Inr klines \<Rightarrow>
            if klines = [] \<or> int (length klines) < lookback_period + 1 then
              (None, [req, Print (Insufficient_history lookback_period symbol (length klines))])
            else
              (case float_column 5 (slice_to (- 1) klines) of
                 Inl e \<Rightarrow> (None, [req, Print (Failed symbol e)])
               | Inr closing_volumes \<Rightarrow>
                   (case py_mean closing_volumes of
                      Inl e \<Rightarrow> (None, [req, Print (Failed symbol e)])
                    | Inr average_volume \<Rightarrow>
                        (case py_add (PStr ''Candele analizzate: '')
                                     (PInt (int (length closing_volumes))) of
                           Inl e \<Rightarrow> (None, [req, Print (Failed symbol e)])
                         | Inr line \<Rightarrow> (Some average_volume, [req, Print (Text line)])))))"

text \<open>\<^verbatim>\<open>generate_volume_signal\<close>: the two products are rounded before they are compared.\<close>

definition generate_volume_signal ::
  "pyfloat option \<Rightarrow> pyfloat option \<Rightarrow> pyfloat \<Rightarrow> pyfloat \<Rightarrow> string" where
  "generate_volume_signal current_volume avg_volume high_threshold_factor low_threshold_factor =
     (case (current_volume, avg_volume) of
        (None, _) \<Rightarrow> ''Dati Volume non disponibili''
      | (_, None) \<Rightarrow> ''Dati Volume non disponibili''
      | (Some cur, Some avg) \<Rightarrow>
          if py_le avg (Fin 0) then ''STABILE''
          else if py_gt cur (py_mul avg high_threshold_factor) then ''RIALZISTA''
          else if py_lt cur (py_mul avg low_threshold_factor) then ''RIBASSISTA''
          else ''STABILE'')"

section \<open>Notions the properties are stated with\<close>

text \<open>
  A row with finite numeric cells, as the provider sends it: open time, open, high, low,
  close, volume (the cells after the volume are never read).
\<close>

definition candle :: "real \<Rightarrow> real \<Rightarrow> real \<Rightarrow> real \<Rightarrow> real \<Rightarrow> kline" where
  "candle opn high lo cls vol =
     [Num (Fin 0), Num (Fin opn), Num (Fin high), Num (Fin lo), Num (Fin cls), Num (Fin vol)]"

text \<open>
  The high and the low of a row when both \<^verbatim>\<open>float(kline[2])\<close> and \<^verbatim>\<open>float(kline[3])\<close>
  succeed. A row where one of them raises is skipped by the breakout scan when the
  exception is ValueError or IndexError; it stops the scan when the exception is
  TypeError (\<open>aborting\<close>).
\<close>

definition parsed :: "kline \<Rightarrow> (pyfloat \<times> pyfloat) option" where
  "parsed k =
     (case float_at k 2 of
        Inl e \<Rightarrow> None
      | Inr h \<Rightarrow> (case float_at k 3 of Inl e \<Rightarrow> None | Inr l \<Rightarrow> Some (h, l)))"

definition aborting :: "kline \<Rightarrow> bool" where
  "aborting k =
     (case float_at k 2 of
        Inl e \<Rightarrow> e = TypeError
      | Inr h \<Rightarrow> (case float_at k 3 of Inl e \<Rightarrow> e = TypeError | Inr l \<Rightarrow> False))"

definition well_formed_rows :: "kline list \<Rightarrow> (pyfloat \<times> pyfloat) list" where
  "well_formed_rows ks = List.map_filter parsed ks"

definition skipped :: "kline list \<Rightarrow> nat" where
  "skipped ks = length (filter (\<lambda>k. parsed k = None) ks)"

text \<open>A finite high and low as the floats of a row.\<close>

definition fin_row :: "real \<times> real \<Rightarrow> pyfloat \<times> pyfloat" where
  "fin_row r = (Fin (fst r), Fin (snd r))"

text \<open>The minimum of a list of lows as the scan holds it: \<^verbatim>\<open>float('inf')\<close> when there is none.\<close>

definition lowest :: "real list \<Rightarrow> pyfloat" where
  "lowest ls = (if ls = [] then PInf else Fin (Min (set ls)))"

text \<open>
  Inputs the properties are evaluated on: a provider answering one history for every
  symbol together with a ticker holding a price; a row whose high, close and volume are
  not numbers; a row too short to hold a low; a row whose high is not text; the window
  of five rows with one unparseable row, the same window with a second unparseable row,
  and the same window with the row whose high is not text.
\<close>

definition feed_of :: "kline list \<Rightarrow> real \<Rightarrow> market" where
  "feed_of history price =
     \<lparr>klines_of = (\<lambda>_. Inr history),
      ticker_of = (\<lambda>_. Inr [(''symbol'', Junk), (''price'', Num (Fin price))])\<rparr>"

definition junk_row :: kline where
  "junk_row = [Num (Fin 0), Num (Fin 1), Junk, Num (Fin 4), Junk, Junk]"

definition short_row :: kline where
  "short_row = [Num (Fin 0), Num (Fin 1), Num (Fin 11)]"

definition null_row :: kline where
  "null_row = [Num (Fin 0), Num (Fin 1), Null, Num (Fin 4), Num (Fin 7), Num (Fin 100)]"

definition window_one_skipped :: "kline list" where
  "window_one_skipped =
     [candle 1 10 5 7 100, candle 1 12 6 7 100, junk_row, candle 1 11 7 7 100, candle 1 9 8 7 100]"

definition window_two_skipped :: "kline list" where
  "window_two_skipped =
     [candle 1 10 5 7 100, candle 1 12 6 7 100, junk_row, short_row, candle 1 9 8 7 100]"

definition window_with_null :: "kline list" where
  "window_with_null =
     [candle 1 10 5 7 100, candle 1 12 6 7 100, null_row, candle 1 11 7 7 100, candle 1 9 8 7 100]"

section \<open>Rounding\<close>

lemma floor_log2_eq:
  assumes "2 powi e \<le> \<bar>x\<bar>" "\<bar>x\<bar> < 2 powi (e + 1)"
  shows "\<lfloor>log 2 \<bar>x\<bar>\<rfloor> = e"
proof -
  have "(0::real) < 2 powi e" by simp
  then have pos: "0 < \<bar>x\<bar>" using assms(1) by linarith
  have "2 powr (real_of_int e) = (2::real) powi e"
    "2 powr (real_of_int e + 1) = (2::real) powi (e + 1)"
    using powr_real_of_int' [of "2::real" e] powr_real_of_int' [of "2::real" "e + 1"]
    by simp_all
  then show ?thesis using assms pos by (simp add: floor_log_eq_powr_iff)
qed

lemma round64_eqI:
  assumes "2 powi e \<le> \<bar>x\<bar>" "\<bar>x\<bar> < 2 powi (e + 1)" "- 1022 \<le> e"
    and "rne (x / 2 powi (e - 52)) = n"
    and "\<bar>of_int n * 2 powi (e - 52)\<bar> < (2::real) ^ 1024"
  shows "round64 x = Fin (of_int n * 2 powi (e - 52))"
proof -
  have "(0::real) < 2 powi e" by simp
  then have "0 < \<bar>x\<bar>" using assms(1) by linarith
  then have "x \<noteq> 0" by simp
  moreover have "max \<lfloor>log 2 \<bar>x\<bar>\<rfloor> (- 1022) = e"
    using floor_log2_eq [OF assms(1,2)] assms(3) by simp
  ultimately show ?thesis using assms(4,5) by (simp add: round64_def Let_def)
qed

lemma rne_nonneg: "0 \<le> z \<Longrightarrow> 0 \<le> rne z"
  by (auto simp: rne_def Let_def)

lemma rne_nonpos: "z \<le> 0 \<Longrightarrow> rne z \<le> 0"
proof -
  assume z: "z \<le> 0"
  have f: "\<lfloor>z\<rfloor> \<le> 0" using z by linarith
  show ?thesis
  proof (cases "\<lfloor>z\<rfloor> = 0")
    case True
    then have "z - of_int \<lfloor>z\<rfloor> < 1 / 2" using z by simp
    then show ?thesis using True by (simp add: rne_def Let_def)
  next
    case False
    then have "\<lfloor>z\<rfloor> + 1 \<le> 0" using f by linarith
    then show ?thesis using f by (auto simp: rne_def Let_def)
  qed
qed

lemma round64_nonneg:
  assumes "0 \<le> x"
  shows "round64 x = PInf \<or> (\<exists>y. 0 \<le> y \<and> round64 x = Fin y)"
proof (cases "x = 0")
  case True
  then show ?thesis by (simp add: round64_def)
next
  case False
  define q :: real where "q = 2 powi (max \<lfloor>log 2 \<bar>x\<bar>\<rfloor> (- 1022) - 52)"
  have q: "0 < q" by (simp add: q_def)
  have "0 \<le> x / q" using assms q by simp
  then have "0 \<le> rne (x / q)" by (rule rne_nonneg)
  then have "0 \<le> of_int (rne (x / q)) * q" using q by simp
  moreover have "0 < x" using assms False by simp
  ultimately show ?thesis using False by (auto simp: round64_def Let_def q_def)
qed

lemma round64_nonpos:
  assumes "x \<le> 0"
  shows "round64 x = NInf \<or> (\<exists>y. y \<le> 0 \<and> round64 x = Fin y)"
proof (cases "x = 0")
  case True
  then show ?thesis by (simp add: round64_def)
next
  case False
  define q :: real where "q = 2 powi (max \<lfloor>log 2 \<bar>x\<bar>\<rfloor> (- 1022) - 52)"
  have q: "0 < q" by (simp add: q_def)
  have "x / q \<le> 0" using assms q by (simp add: divide_le_0_iff)
  then have "rne (x / q) \<le> 0" by (rule rne_nonpos)
  then have "of_int (rne (x / q)) * q \<le> 0" using q by (simp add: mult_le_0_iff)
  moreover have "\<not> 0 < x" using assms by simp
  ultimately show ?thesis using False by (auto simp: round64_def Let_def q_def)
qed

lemma round64_zero [simp]: "round64 0 = Fin 0"
  by (simp add: round64_def)

section \<open>Crossover classification\<close>

lemma py_lt_NaN [simp]: "py_lt x NaN = False"
  by (cases x) simp_all

lemma py_eq_NaN [simp]: "py_eq x NaN = False"
  by (cases x) simp_all

lemma py_sub_NaN [simp]: "py_sub x NaN = NaN"
  by (cases x) simp_all

lemma py_mul_NaN [simp]: "py_mul x NaN = NaN"
  by (cases x) simp_all

lemma relative_difference_percent_same:
  "\<not> py_eq x (Fin 0) \<Longrightarrow>
   relative_difference_percent x x = Inr (Fin 0) \<or> relative_difference_percent x x = Inr NaN"
  by (cases x) (simp_all add: relative_difference_percent_def)

lemma not_gt_zero_threshold:
  "py_le (Fin 0) t \<Longrightarrow> \<not> py_gt (Fin 0) t \<and> \<not> py_gt NaN t"
  by (cases t) (auto simp: py_le_def py_gt_def)

text \<open>
  When the rounded relative difference exceeds a threshold that is not negative, the
  rounded difference is positive exactly when the short average is above the long one.
\<close>

lemma difference_sign_finite:
  assumes rel: "relative_difference_percent (Fin a) (Fin b) = Inr r"
    and gt: "py_gt r t" and t: "py_le (Fin 0) t"
  shows "py_gt (py_sub (Fin a) (Fin b)) (Fin 0) \<longleftrightarrow> b < a"
proof (cases "b < a")
  case True
  then have "0 \<le> a - b" by simp
  then consider "round64 (a - b) = PInf" | y where "0 \<le> y" "round64 (a - b) = Fin y"
    using round64_nonneg by blast
  then show ?thesis
  proof cases
    case 1
    then show ?thesis using True by (simp add: py_gt_def)
  next
    case 2
    have "y \<noteq> 0"
    proof
      assume "y = 0"
      with 2 rel have "r = Fin 0 \<or> r = NaN"
        by (auto simp: relative_difference_percent_def split: if_splits)
      with gt t show False using not_gt_zero_threshold [OF t] by auto
    qed
    with 2 True show ?thesis by (simp add: py_gt_def)
  qed
next
  case False
  then have "a - b \<le> 0" by simp
  then consider "round64 (a - b) = NInf" | y where "y \<le> 0" "round64 (a - b) = Fin y"
    using round64_nonpos by blast
  then show ?thesis using False by cases (simp_all add: py_gt_def)
qed

lemma difference_sign:
  assumes rel: "relative_difference_percent s l = Inr r"
    and gt: "py_gt r t" and t: "py_le (Fin 0) t"
  shows "py_gt (py_sub s l) (Fin 0) \<longleftrightarrow> py_gt s l"
proof (cases s)
  case (Fin a)
  show ?thesis
  proof (cases l)
    case (Fin b)
    with \<open>s = Fin a\<close> difference_sign_finite [of a b r t] assms show ?thesis
      by (simp add: py_gt_def)
  next
    case PInf
    with \<open>s = Fin a\<close> rel have "r = NaN" by (simp add: relative_difference_percent_def)
    with gt show ?thesis by (simp add: py_gt_def)
  next
    case NInf
    with \<open>s = Fin a\<close> rel have "r = NaN" by (simp add: relative_difference_percent_def)
    with gt show ?thesis by (simp add: py_gt_def)
  next
    case NaN
    with \<open>s = Fin a\<close> rel have "r = NaN" by (simp add: relative_difference_percent_def)
    with gt show ?thesis by (simp add: py_gt_def)
  qed
next
  case PInf
  then show ?thesis using rel gt
    by (cases l) (auto simp: relative_difference_percent_def py_gt_def split: if_splits)
next
  case NInf
  then show ?thesis using rel gt
    by (cases l) (auto simp: relative_difference_percent_def py_gt_def split: if_splits)
next
  case NaN
  then show ?thesis using rel gt
    by (cases l) (auto simp: relative_difference_percent_def py_gt_def split: if_splits)
qed

lemma relative_difference_percent_defined:
  "\<not> py_eq l (Fin 0) \<Longrightarrow> \<exists>r. relative_difference_percent s l = Inr r"
  by (cases l; cases s) (simp_all add: relative_difference_percent_def split: pyfloat.splits)

lemma not_gt_iff_le_or_nan:
  "py_le (Fin 0) t \<Longrightarrow> \<not> py_gt r t \<longleftrightarrow> py_le r t \<or> r = NaN"
  by (cases t; cases r) (auto simp: py_le_def py_gt_def)

text \<open>
  C4 (as amended). \<^verbatim>\<open>generate_crossover_signal\<close> answers the unavailable label when an
  average is missing and the invalid-MA label when the long average is 0. Otherwise, for
  a threshold \<open>t \<ge> 0\<close> and the relative difference \<open>rel\<close> as the code computes it, each of
  its three operations rounded to binary64: "Hold" when \<open>rel \<le> t\<close> or \<open>rel\<close> is NaN,
  "Rialzista" when \<open>rel\<close> exceeds \<open>t\<close> and the short average is above the long one,
  "Ribassista" in the remaining case. Two equal nonzero averages give "Hold" for every
  threshold \<open>t \<ge> 0\<close>.
\<close>

theorem generate_crossover_signal_cases:
  "generate_crossover_signal None lo t = Inr ''Dati MA non disponibili'' \<and>
   generate_crossover_signal sh None t = Inr ''Dati MA non disponibili'' \<and>
   (py_eq l (Fin 0) \<longrightarrow>
      generate_crossover_signal (Some s) (Some l) t = Inr ''Dati MA non validi (MA lunga = 0)'') \<and>
   (\<not> py_eq l (Fin 0) \<and> py_le (Fin 0) t \<longrightarrow>
      (\<exists>rel. relative_difference_percent s l = Inr rel \<and>
         generate_crossover_signal (Some s) (Some l) t =
           Inr (if py_le rel t \<or> rel = NaN then ''Hold''
                else if py_gt s l then ''Rialzista'' else ''Ribassista''))) \<and>
   (\<not> py_eq x (Fin 0) \<and> py_le (Fin 0) t \<longrightarrow>
      generate_crossover_signal (Some x) (Some x) t = Inr ''Hold'')"
proof -
  have missing: "generate_crossover_signal None lo t = Inr ''Dati MA non disponibili''"
    "generate_crossover_signal sh None t = Inr ''Dati MA non disponibili''"
    by (cases sh; simp add: generate_crossover_signal_def)+
  have invalid: "py_eq l (Fin 0) \<longrightarrow>
      generate_crossover_signal (Some s) (Some l) t = Inr ''Dati MA non validi (MA lunga = 0)''"
    by (simp add: generate_crossover_signal_def)
  have classified: "\<exists>rel. relative_difference_percent s l = Inr rel \<and>
         generate_crossover_signal (Some s) (Some l) t =
           Inr (if py_le rel t \<or> rel = NaN then ''Hold''
                else if py_gt s l then ''Rialzista'' else ''Ribassista'')"
    if l: "\<not> py_eq l (Fin 0)" and t: "py_le (Fin 0) t"
  proof -
    from l obtain rel where rel: "relative_difference_percent s l = Inr rel"
      using relative_difference_percent_defined by blast
    show ?thesis
    proof (cases "py_gt rel t")
      case True
      then have "\<not> (py_le rel t \<or> rel = NaN)"
        using not_gt_iff_le_or_nan [OF t, of rel] by simp
      moreover have "py_gt (py_sub s l) (Fin 0) \<longleftrightarrow> py_gt s l"
        using rel True t by (rule difference_sign)
      ultimately show ?thesis
        using l rel True by (simp add: generate_crossover_signal_def Let_def)
    next
      case False
      then have "py_le rel t \<or> rel = NaN"
        using not_gt_iff_le_or_nan [OF t, of rel] by simp
      then show ?thesis
        using l rel False by (simp add: generate_crossover_signal_def Let_def)
    qed
  qed
  have tie: "generate_crossover_signal (Some x) (Some x) t = Inr ''Hold''"
    if x: "\<not> py_eq x (Fin 0)" and t: "py_le (Fin 0) t"
    using relative_difference_percent_same [OF x] not_gt_zero_threshold [OF t] x
    by (auto simp: generate_crossover_signal_def Let_def)
  from missing invalid classified tie show ?thesis by blast
qed

text \<open>The relative differences of 105 and of 107 against 100, operation by operation.\<close>

lemma sub_105_100: "py_sub (Fin 105) (Fin 100) = Fin 5"
  using round64_eqI [of 2 "105 - 100" "5 * 2 ^ 50"] by (simp add: rne_def Let_def)

lemma relative_difference_percent_105_100:
  "relative_difference_percent (Fin 105) (Fin 100) = Inr (Fin 5)"
proof -
  have quotient: "py_truediv (Fin 5) (Fin 100) = Inr (Fin (3602879701896397 / 72057594037927936))"
    using round64_eqI [of "- 5" "5 / 100" 7205759403792794] by (simp add: rne_def Let_def)
  have percent: "py_mul (Fin (3602879701896397 / 72057594037927936)) (Fin 100) = Fin 5"
    using round64_eqI [of 2 "3602879701896397 / 72057594037927936 * 100" "5 * 2 ^ 50"]
    by (simp add: rne_def Let_def)
  show ?thesis
    by (simp add: relative_difference_percent_def sub_105_100 quotient percent
          del: py_sub.simps py_truediv.simps py_mul.simps)
qed

lemma sub_107_100: "py_sub (Fin 107) (Fin 100) = Fin 7"
  using round64_eqI [of 2 "107 - 100" "7 * 2 ^ 50"] by (simp add: rne_def Let_def)

lemma relative_difference_percent_107_100:
  "relative_difference_percent (Fin 107) (Fin 100)
     = Inr (Fin (7881299347898369 / 1125899906842624))"
proof -
  have quotient: "py_truediv (Fin 7) (Fin 100) = Inr (Fin (1261007895663739 / 18014398509481984))"
    using round64_eqI [of "- 4" "7 / 100" 5044031582654956] by (simp add: rne_def Let_def)
  have percent: "py_mul (Fin (1261007895663739 / 18014398509481984)) (Fin 100)
      = Fin (7881299347898369 / 1125899906842624)"
    using round64_eqI [of 2 "1261007895663739 / 18014398509481984 * 100" 7881299347898369]
    by (simp add: rne_def Let_def)
  show ?thesis
    by (simp add: relative_difference_percent_def sub_107_100 quotient percent
          del: py_sub.simps py_truediv.simps py_mul.simps)
qed

theorem generate_crossover_signal_cases_witness:
  "\<not> py_eq (Fin 100) (Fin 0) \<and> py_le (Fin 0) (Fin (1 / 2)) \<and>
   relative_difference_percent (Fin 105) (Fin 100) = Inr (Fin 5) \<and>
   generate_crossover_signal (Some (Fin 105)) (Some (Fin 100)) (Fin (1 / 2)) = Inr ''Rialzista'' \<and>
   generate_crossover_signal (Some (Fin 100)) (Some (Fin 100)) (Fin (1 / 2)) = Inr ''Hold''"
  using generate_crossover_signal_cases [where t = "Fin (1 / 2)" and s = "Fin 105"
      and l = "Fin 100" and x = "Fin 100"]
  by (simp add: relative_difference_percent_105_100 py_le_def py_gt_def)

text \<open>
  C4 as stated fails. For the averages 107 and 100 and the threshold 7 the relative
  difference is exactly 7, which is not above the threshold, yet the answer is
  "Rialzista": 7 / 100 is rounded up, and the product with 100 is rounded to the float
  above 7. For a short average that is NaN the relative difference is NaN, which is
  neither above nor at most the threshold, and the answer is "Hold", not "Ribassista".
\<close>

theorem generate_crossover_signal_rounding_counterexample:
  "generate_crossover_signal (Some (Fin 107)) (Some (Fin 100)) (Fin 7) = Inr ''Rialzista'' \<and>
   \<bar>107 - 100\<bar> / 100 * 100 \<le> (7::real) \<and>
   generate_crossover_signal (Some NaN) (Some (Fin 100)) (Fin (1 / 2)) = Inr ''Hold'' \<and>
   relative_difference_percent NaN (Fin 100) = Inr NaN \<and> \<not> py_le NaN (Fin (1 / 2))"
proof -
  have "generate_crossover_signal (Some (Fin 107)) (Some (Fin 100)) (Fin 7) = Inr ''Rialzista''"
    by (simp add: generate_crossover_signal_def relative_difference_percent_107_100 sub_107_100
          py_gt_def del: py_sub.simps)
  moreover have "relative_difference_percent NaN (Fin 100) = Inr NaN"
    by (simp add: relative_difference_percent_def)
  moreover have "generate_crossover_signal (Some NaN) (Some (Fin 100)) (Fin (1 / 2)) = Inr ''Hold''"
    by (simp add: generate_crossover_signal_def relative_difference_percent_def py_gt_def)
  ultimately show ?thesis by (simp add: py_le_def)
qed

section \<open>Volume classification\<close>

text \<open>
  The rounded products the examples need. The binary64 value of the literal \<^verbatim>\<open>0.7\<close> is
  \<open>3152519739159347 / 2 ^ 52\<close>, that of \<^verbatim>\<open>69.9\<close> is \<open>2459387609009357 / 2 ^ 45\<close>; 1.5, 0.5 and
  the integers are exact.
\<close>

lemma mul_100_high: "py_mul (Fin 100) (Fin (3 / 2)) = Fin 150"
  using round64_eqI [of 7 "100 * (3 / 2)" "150 * 2 ^ 45"] by (simp add: rne_def Let_def)

lemma mul_100_low:
  "py_mul (Fin 100) (Fin (3152519739159347 / 4503599627370496)) = Fin 70"
  using round64_eqI [of 6 "100 * (3152519739159347 / 4503599627370496)" 4925812092436480]
  by (simp add: rne_def Let_def)

lemma mul_100_half: "py_mul (Fin 100) (Fin (1 / 2)) = Fin 50"
  using round64_eqI [of 5 "100 * (1 / 2)" "50 * 2 ^ 47"] by (simp add: rne_def Let_def)

lemma mul_100_two: "py_mul (Fin 100) (Fin 2) = Fin 200"
  using round64_eqI [of 7 "100 * 2" "200 * 2 ^ 45"] by (simp add: rne_def Let_def)

lemma mul_3_high: "py_mul (Fin 3) (Fin (3 / 2)) = Fin (9 / 2)"
  using round64_eqI [of 2 "3 * (3 / 2)" "9 * 2 ^ 49"] by (simp add: rne_def Let_def)

lemma mul_3_low:
  "py_mul (Fin 3) (Fin (3152519739159347 / 4503599627370496))
     = Fin (1182194902184755 / 562949953421312)"
  using round64_eqI [of 1 "3 * (3152519739159347 / 4503599627370496)" 4728779608739020]
  by (simp add: rne_def Let_def)

text \<open>
  C6 (as amended). \<^verbatim>\<open>generate_volume_signal\<close> answers the unavailable label when a volume
  is missing and "STABILE" when the average is at most 0. Otherwise the cases are taken in
  order, against the products \<open>avg * h\<close> and \<open>avg * l\<close> rounded to binary64: "RIALZISTA"
  exactly when \<open>cur\<close> is above the rounded \<open>avg * h\<close>; "RIBASSISTA" exactly when it is not
  and \<open>cur\<close> is below the rounded \<open>avg * l\<close>; "STABILE" otherwise. The four examples of the
  specification, at the floats of their literals, evaluate as it says.
\<close>

theorem generate_volume_signal_cases:
  "generate_volume_signal None avg h l = ''Dati Volume non disponibili'' \<and>
   generate_volume_signal cur None h l = ''Dati Volume non disponibili'' \<and>
   (py_le a (Fin 0) \<longrightarrow> generate_volume_signal (Some c) (Some a) h l = ''STABILE'') \<and>
   (\<not> py_le a (Fin 0) \<longrightarrow>
      (generate_volume_signal (Some c) (Some a) h l = ''RIALZISTA'' \<longleftrightarrow> py_gt c (py_mul a h)) \<and>
      (generate_volume_signal (Some c) (Some a) h l = ''RIBASSISTA'' \<longleftrightarrow>
         \<not> py_gt c (py_mul a h) \<and> py_lt c (py_mul a l)) \<and>
      (generate_volume_signal (Some c) (Some a) h l = ''STABILE'' \<longleftrightarrow>
         \<not> py_gt c (py_mul a h) \<and> \<not> py_lt c (py_mul a l))) \<and>
   generate_volume_signal (Some (Fin 151)) (Some (Fin 100)) (Fin (3 / 2))
     (Fin (3152519739159347 / 4503599627370496)) = ''RIALZISTA'' \<and>
   generate_volume_signal (Some (Fin 70)) (Some (Fin 100)) (Fin (3 / 2))
     (Fin (3152519739159347 / 4503599627370496)) = ''STABILE'' \<and>
   generate_volume_signal (Some (Fin (2459387609009357 / 35184372088832))) (Some (Fin 100))
     (Fin (3 / 2)) (Fin (3152519739159347 / 4503599627370496)) = ''RIBASSISTA'' \<and>
   generate_volume_signal (Some (Fin 50)) (Some (Fin 0)) (Fin (3 / 2))
     (Fin (3152519739159347 / 4503599627370496)) = ''STABILE''"
proof -
  have missing: "generate_volume_signal None avg h l = ''Dati Volume non disponibili''"
    "generate_volume_signal cur None h l = ''Dati Volume non disponibili''"
    by (cases cur; simp add: generate_volume_signal_def)+
  have degenerate:
    "py_le a (Fin 0) \<longrightarrow> generate_volume_signal (Some c) (Some a) h l = ''STABILE''"
    by (simp add: generate_volume_signal_def)
  have ordered: "\<not> py_le a (Fin 0) \<longrightarrow>
      (generate_volume_signal (Some c) (Some a) h l = ''RIALZISTA'' \<longleftrightarrow> py_gt c (py_mul a h)) \<and>
      (generate_volume_signal (Some c) (Some a) h l = ''RIBASSISTA'' \<longleftrightarrow>
         \<not> py_gt c (py_mul a h) \<and> py_lt c (py_mul a l)) \<and>
      (generate_volume_signal (Some c) (Some a) h l = ''STABILE'' \<longleftrightarrow>
         \<not> py_gt c (py_mul a h) \<and> \<not> py_lt c (py_mul a l))"
    by (simp add: generate_volume_signal_def)
  have examples:
    "generate_volume_signal (Some (Fin 151)) (Some (Fin 100)) (Fin (3 / 2))
       (Fin (3152519739159347 / 4503599627370496)) = ''RIALZISTA''"
    "generate_volume_signal (Some (Fin 70)) (Some (Fin 100)) (Fin (3 / 2))
       (Fin (3152519739159347 / 4503599627370496)) = ''STABILE''"
    "generate_volume_signal (Some (Fin (2459387609009357 / 35184372088832))) (Some (Fin 100))
       (Fin (3 / 2)) (Fin (3152519739159347 / 4503599627370496)) = ''RIBASSISTA''"
    "generate_volume_signal (Some (Fin 50)) (Some (Fin 0)) (Fin (3 / 2))
       (Fin (3152519739159347 / 4503599627370496)) = ''STABILE''"
    by (simp_all add: generate_volume_signal_def mul_100_high mul_100_low py_le_def py_gt_def
          del: py_mul.simps)
  from missing degenerate ordered examples show ?thesis by blast
qed

theorem generate_volume_signal_cases_witness:
  "\<not> py_le (Fin 100) (Fin 0) \<and>
   (generate_volume_signal (Some (Fin 60)) (Some (Fin 100)) (Fin (3 / 2))
      (Fin (3152519739159347 / 4503599627370496)) = ''RIBASSISTA'' \<longleftrightarrow>
      \<not> py_gt (Fin 60) (Fin 150) \<and> py_lt (Fin 60) (Fin 70)) \<and>
   py_le (Fin 0) (Fin 0) \<and>
   generate_volume_signal (Some (Fin 50)) (Some (Fin 0)) (Fin (3 / 2))
     (Fin (3152519739159347 / 4503599627370496)) = ''STABILE''"
  using generate_volume_signal_cases [where h = "Fin (3 / 2)"
      and l = "Fin (3152519739159347 / 4503599627370496)" and a = "Fin 0" and c = "Fin 50"]
    generate_volume_signal_cases [where h = "Fin (3 / 2)"
      and l = "Fin (3152519739159347 / 4503599627370496)" and a = "Fin 100" and c = "Fin 60"]
  by (simp add: mul_100_high mul_100_low py_le_def del: py_mul.simps)

text \<open>
  C6 as stated fails. Where the thresholds overlap (current volume 100, average 100, high
  factor 0.5, low factor 2) the volume is strictly below \<open>avg * l = 200\<close> and the answer is
  "RIALZISTA", the high test being made first. And for the current volume
  \<open>1182194902184755 / 2 ^ 49\<close> (the float printed 2.0999999999999996), the average 3 and
  the low factor 0.7, the volume is strictly below the exact product, but the product is
  rounded down to that very float and the answer is "STABILE".
\<close>

theorem generate_volume_signal_overlap_counterexample:
  "generate_volume_signal (Some (Fin 100)) (Some (Fin 100)) (Fin (1 / 2)) (Fin 2) = ''RIALZISTA'' \<and>
   (100::real) < 100 * 2 \<and>
   generate_volume_signal (Some (Fin (1182194902184755 / 562949953421312))) (Some (Fin 3))
     (Fin (3 / 2)) (Fin (3152519739159347 / 4503599627370496)) = ''STABILE'' \<and>
   (1182194902184755 / 562949953421312 :: real) < 3 * (3152519739159347 / 4503599627370496)"
  by (simp add: generate_volume_signal_def mul_100_half mul_100_two mul_3_high mul_3_low
        py_le_def py_gt_def del: py_mul.simps)

section \<open>The volume average never returns a number\<close>

lemma get_average_historical_volume_None:
  "fst (get_average_historical_volume m symbol n) = None"
  by (simp add: get_average_historical_volume_def Let_def split: sum.splits)




text \<open>
  C1. With three numeric candles of volumes 10, 20 and 30 (the last one open) and a
  lookback of 2, the mean of the two closed volumes is 15, and the fetch returns the
  \<open>lookback + 1\<close> candles the function asks for. The call nevertheless returns None: the
  line printing the number of candles adds an integer to a string, the TypeError is
  caught by the function's own handler, and the computed mean is dropped.
\<close>

theorem get_average_historical_volume_drops_mean:
  "get_average_historical_volume
     \<lparr>klines_of = (\<lambda>_. Inr [candle 1 1 1 1 10, candle 1 1 1 1 20, candle 1 1 1 1 30]),
      ticker_of = (\<lambda>_. Inl BinanceException)\<rparr> ''ETHUSDT'' 2
   = (None, [Request_klines ''ETHUSDT'' 3, Print (Failed ''ETHUSDT'' TypeError)]) \<and>
   py_mean [Fin 10, Fin 20] = Inr (Fin 15)"
  by (simp add: get_average_historical_volume_def get_klines_def candle_def slice_to_def
        float_at_def py_index_def py_mean_def py_sum_def py_upper_def upper_char_def)

section \<open>Moving averages\<close>



lemma get_klines_window:
  assumes "klines_of m s = Inr history" "0 < n" "n \<le> int (length history)"
  shows "get_klines m s n = Inr (drop (length history - nat n) history)"
    and "length (drop (length history - nat n) history) = nat n"
  using assms by (auto simp: get_klines_def)

lemma get_klines_short:
  assumes "klines_of m s = Inr history" "int (length history) < n"
  shows "get_klines m s n = Inr history"
  using assms by (auto simp: get_klines_def)


text \<open>
  C7. \<^verbatim>\<open>get_moving_averages\<close> returns the pair (None, None) when \<open>short_period \<le> 0\<close>,
  \<open>long_period \<le> 0\<close> or \<open>short_period > long_period\<close>, and then the only thing the call
  does is print the error line: no request reaches the provider. It also returns
  (None, None) when the history holds fewer than \<open>long_period\<close> candles. In both cases no
  average, partial or approximated, is returned.
\<close>

theorem get_moving_averages_rejects:
  "(short_period \<le> 0 \<or> long_period \<le> 0 \<or> short_period > long_period \<longrightarrow>
      get_moving_averages m symbol short_period long_period
        = ((None, None), [Print Periods_invalid])) \<and>
   (klines_of m (py_upper symbol) = Inr history \<and> int (length history) < long_period \<longrightarrow>
      fst (get_moving_averages m symbol short_period long_period) = (None, None))"
proof (intro conjI impI)
  assume "short_period \<le> 0 \<or> long_period \<le> 0 \<or> short_period > long_period"
  then show "get_moving_averages m symbol short_period long_period
        = ((None, None), [Print Periods_invalid])"
    unfolding get_moving_averages_def by (simp only: if_True)
next
  assume a: "klines_of m (py_upper symbol) = Inr history \<and> int (length history) < long_period"
  then have "get_klines m (py_upper symbol) long_period = Inr history"
    by (simp add: get_klines_short)
  with a show "fst (get_moving_averages m symbol short_period long_period) = (None, None)"
    by (simp add: get_moving_averages_def Let_def)
qed

theorem get_moving_averages_rejects_witness:
  "get_moving_averages
     \<lparr>klines_of = (\<lambda>_. Inr [candle 1 1 1 10 1, candle 1 1 1 20 1]),
      ticker_of = (\<lambda>_. Inl BinanceException)\<rparr> ''ETHUSDT'' 3 2
     = ((None, None), [Print Periods_invalid]) \<and>
   fst (get_moving_averages
     \<lparr>klines_of = (\<lambda>_. Inr [candle 1 1 1 10 1, candle 1 1 1 20 1]),
      ticker_of = (\<lambda>_. Inl BinanceException)\<rparr> ''ETHUSDT'' 2 3) = (None, None)"
  using get_moving_averages_rejects [where short_period = 3 and long_period = 2
      and symbol = "''ETHUSDT''"
      and m = "\<lparr>klines_of = (\<lambda>_. Inr [candle 1 1 1 10 1, candle 1 1 1 20 1]),
                ticker_of = (\<lambda>_. Inl BinanceException)\<rparr>"]
    get_moving_averages_rejects [where short_period = 2 and long_period = 3
      and symbol = "''ETHUSDT''" and history = "[candle 1 1 1 10 1, candle 1 1 1 20 1]"
      and m = "\<lparr>klines_of = (\<lambda>_. Inr [candle 1 1 1 10 1, candle 1 1 1 20 1]),
                ticker_of = (\<lambda>_. Inl BinanceException)\<rparr>"]
  by simp







section \<open>Breakout: the scan of the window and the label\<close>

lemma float_at_raises:
  "float_at k i = Inl e \<Longrightarrow> e = ValueError \<or> e = IndexError \<or> e = TypeError"
  by (cases "k ! i") (auto simp: float_at_def py_index_def split: if_splits)

lemma scan_klines_well_formed:
  "parsed k = Some (h, l) \<Longrightarrow>
   scan_klines (k # ks) hh ll =
     scan_klines ks (if py_gt h hh then h else hh) (if py_lt l ll then l else ll)"
  by (auto simp: parsed_def split: sum.splits)

lemma scan_klines_skips:
  "parsed k = None \<Longrightarrow> \<not> aborting k \<Longrightarrow>
   \<exists>e. scan_klines (k # ks) hh ll =
        (fst (scan_klines ks hh ll), Print (Row_unparsed k e) # snd (scan_klines ks hh ll))"
  by (auto simp: parsed_def aborting_def split: sum.splits prod.splits dest: float_at_raises)


lemma aborting_not_parsed: "aborting k \<Longrightarrow> parsed k = None"
  by (auto simp: aborting_def parsed_def split: sum.splits)



lemma Max_insert_max:
  "finite S \<Longrightarrow> Max (insert (max hh h) S) = Max (insert hh (insert h (S :: real set)))"
  by (cases "S = {}") (simp_all add: max.assoc)

lemma Min_insert_smaller:
  "finite S \<Longrightarrow> l < x \<Longrightarrow> Min (insert x (insert l S)) = Min (insert l (S :: real set))"
proof -
  assume fin: "finite S" and lt: "l < x"
  have "Min (insert l S) \<le> l" using fin by simp
  with lt have "min x (Min (insert l S)) = Min (insert l S)" by simp
  then show ?thesis using fin by simp
qed

lemma Min_insert_larger:
  "finite S \<Longrightarrow> \<not> l < x \<Longrightarrow> Min (insert x (insert l S)) = Min (insert x (S :: real set))"
  by (cases "S = {}") (auto simp: insert_commute [of x l] min_def)

text \<open>
  On rows with finite highs and lows, the scan from a finite high and from
  \<^verbatim>\<open>float('inf')\<close> or a finite low ends on the maximum and the minimum.
\<close>

lemma scan_klines_extremes:
  assumes "\<forall>k \<in> set ks. \<not> aborting k" "well_formed_rows ks = map fin_row rows"
  shows "fst (scan_klines ks (Fin hh) PInf) =
           Inr (Fin (Max (insert hh (fst ` set rows))), lowest (map snd rows))"
    and "fst (scan_klines ks (Fin hh) (Fin x)) =
           Inr (Fin (Max (insert hh (fst ` set rows))), Fin (Min (insert x (snd ` set rows))))"
  using assms
proof (induction ks arbitrary: hh x rows)
  case Nil
  {
    case 1
    then show ?case by (simp add: well_formed_rows_def lowest_def)
  next
    case 2
    then show ?case by (simp add: well_formed_rows_def)
  }
next
  case (Cons k ks)
  {
    case 1
    note prems = this
    then have rest: "\<forall>k \<in> set ks. \<not> aborting k" and k: "\<not> aborting k" by simp_all
    show ?case
    proof (cases "parsed k")
      case None
      then have rows: "well_formed_rows ks = map fin_row rows"
        using prems(2) by (simp add: well_formed_rows_def)
      from scan_klines_skips [OF None k] obtain e where
        "scan_klines (k # ks) (Fin hh) PInf =
          (fst (scan_klines ks (Fin hh) PInf),
           Print (Row_unparsed k e) # snd (scan_klines ks (Fin hh) PInf))"
        by blast
      then show ?thesis using Cons.IH(1) [OF rest rows] by (simp del: scan_klines.simps)
    next
      case (Some r)
      with prems(2) obtain r' rows' where rows: "rows = r' # rows'" "r = fin_row r'"
        "well_formed_rows ks = map fin_row rows'"
        by (auto simp: well_formed_rows_def)
      obtain h l where r': "r' = (h, l)" by (cases r')
      have step: "scan_klines (k # ks) (Fin hh) PInf =
          scan_klines ks (Fin (max hh h)) (Fin l)"
        using scan_klines_well_formed [of k "Fin h" "Fin l" ks "Fin hh" PInf] Some rows(2) r'
        by (simp add: fin_row_def py_gt_def max_def del: scan_klines.simps)
      show ?thesis
        using Cons.IH(2) [OF rest rows(3), of "max hh h" l]
        by (simp add: step rows(1) r' lowest_def Max_insert_max del: scan_klines.simps Max_insert)
    qed
  next
    case 2
    note prems = this
    then have rest: "\<forall>k \<in> set ks. \<not> aborting k" and k: "\<not> aborting k" by simp_all
    show ?case
    proof (cases "parsed k")
      case None
      then have rows: "well_formed_rows ks = map fin_row rows"
        using prems(2) by (simp add: well_formed_rows_def)
      from scan_klines_skips [OF None k] obtain e where
        "scan_klines (k # ks) (Fin hh) (Fin x) =
          (fst (scan_klines ks (Fin hh) (Fin x)),
           Print (Row_unparsed k e) # snd (scan_klines ks (Fin hh) (Fin x)))"
        by blast
      then show ?thesis using Cons.IH(2) [OF rest rows] by (simp del: scan_klines.simps)
    next
      case (Some r)
      with prems(2) obtain r' rows' where rows: "rows = r' # rows'" "r = fin_row r'"
        "well_formed_rows ks = map fin_row rows'"
        by (auto simp: well_formed_rows_def)
      obtain h l where r': "r' = (h, l)" by (cases r')
      have fin: "finite (snd ` set rows')" by simp
      have step: "scan_klines (k # ks) (Fin hh) (Fin x) =
          scan_klines ks (Fin (max hh h)) (Fin (if l < x then l else x))"
        using scan_klines_well_formed [of k "Fin h" "Fin l" ks "Fin hh" "Fin x"] Some rows(2) r'
        by (simp add: fin_row_def py_gt_def max_def del: scan_klines.simps)
      have low: "Min (insert (if l < x then l else x) (snd ` set rows'))
          = Min (insert x (insert l (snd ` set rows')))"
        using Min_insert_smaller [OF fin, of l x] Min_insert_larger [OF fin, of l x] by simp
      show ?thesis
        using Cons.IH(2) [OF rest rows(3), of "max hh h" "if l < x then l else x"]
        by (simp add: step rows(1) r' Max_insert_max low del: scan_klines.simps Max_insert Min_insert)
    qed
  }
qed



lemma get_binance_price_pb_available:
  assumes "ticker_of m (py_upper symbol) = Inr ticker" "map_of ticker ''price'' = Some (Num p)"
  shows "get_binance_price_pb m symbol = (Some p, [Request_ticker (py_upper symbol)])"
proof -
  have "ticker \<noteq> []" using assms(2) by auto
  then show ?thesis using assms by (simp add: get_binance_price_pb_def)
qed

lemma generate_breakout_signal_result:
  assumes feed: "klines_of m (py_upper symbol) = Inr history"
    and n: "0 < n" "n \<le> int (length history)"
    and ticker: "ticker_of m (py_upper symbol) = Inr ticker"
    and price: "map_of ticker ''price'' = Some (Num p)"
    and w: "w = drop (length history - nat n) history"
    and scan: "scan_klines w (Fin 0) PInf = (Inr (hh, ll), out)"
  shows "generate_breakout_signal m symbol n =
           (breakout_label p hh ll,
            Request_klines (py_upper symbol) n # out @ [Request_ticker (py_upper symbol)])"
proof -
  have fetch: "get_klines m (py_upper symbol) n = Inr w"
    and len_w: "length w = nat n"
    using get_klines_window [OF feed n] w by simp_all
  have enough: "\<not> (w = [] \<or> int (length w) < n)"
    using len_w n by auto
  have pb: "get_binance_price_pb m symbol = (Some p, [Request_ticker (py_upper symbol)])"
    using ticker price by (rule get_binance_price_pb_available)
  have guard: "\<not> n \<le> 0" using n by simp
  show ?thesis
    unfolding generate_breakout_signal_def Let_def
    by (simp only: guard if_False fetch sum.case enough scan pb prod.case option.case)
qed




lemma well_formed_rows_all_malformed:
  "\<forall>k \<in> set ks. parsed k = None \<Longrightarrow> well_formed_rows ks = []"
  by (induction ks) (simp_all add: well_formed_rows_def)


lemma lowest_le_highest:
  assumes "rows \<noteq> []" "\<forall>r \<in> set rows. snd r \<le> (fst r :: real)"
  shows "\<not> py_lt (Fin (Max (insert 0 (fst ` set rows)))) (lowest (map snd rows))"
proof -
  from assms(1) obtain r where r: "r \<in> set rows" by (cases rows) auto
  have "Min (snd ` set rows) \<le> snd r" using r by simp
  also have "snd r \<le> fst r" using assms(2) r by blast
  also have "fst r \<le> Max (insert 0 (fst ` set rows))" using r by simp
  finally have "\<not> Max (insert 0 (fst ` set rows)) < Min (snd ` set rows)" by (rule leD)
  moreover have "lowest (map snd rows) = Fin (Min (snd ` set rows))"
    using assms(1) by (simp add: lowest_def)
  ultimately show ?thesis by (simp only: py_lt.simps not_False_eq_True)
qed

text \<open>The definitions unfolded to evaluate the calls on the inputs above.\<close>

lemmas run = generate_breakout_signal_def get_klines_def get_binance_price_pb_def
  breakout_label_def float_at_def py_index_def py_upper_def upper_char_def candle_def
  feed_of_def junk_row_def short_row_def null_row_def window_one_skipped_def
  window_two_skipped_def window_with_null_def skipped_def parsed_def aborting_def
  well_formed_rows_def lowest_def fin_row_def py_gt_def




text \<open>
  C9 (as amended). When every row of the fetched window fails to parse with ValueError
  or IndexError (unparseable text, or a row too short), the extremes keep their initial
  values 0.0 and \<^verbatim>\<open>float('inf')\<close>, and for an available price \<open>p > 0\<close>
  \<^verbatim>\<open>generate_breakout_signal\<close> answers "Breakout Rialzista", not an unavailable signal.
\<close>

theorem generate_breakout_signal_all_malformed:
  assumes feed: "klines_of m (py_upper symbol) = Inr history"
    and n: "0 < n" "n \<le> int (length history)"
    and ticker: "ticker_of m (py_upper symbol) = Inr ticker"
    and price: "map_of ticker ''price'' = Some (Num p)"
    and w: "w = drop (length history - nat n) history"
    and malformed: "\<forall>k \<in> set w. parsed k = None \<and> \<not> aborting k"
    and positive: "py_gt p (Fin 0)"
  shows "fst (scan_klines w (Fin 0) PInf) = Inr (Fin 0, PInf) \<and>
         fst (generate_breakout_signal m symbol n) = ''Breakout Rialzista''"
proof -
  have caught: "\<forall>k \<in> set w. \<not> aborting k" using malformed by blast
  have "well_formed_rows w = map fin_row []"
    using malformed by (simp add: well_formed_rows_all_malformed)
  then have ends: "fst (scan_klines w (Fin 0) PInf) = Inr (Fin 0, PInf)"
    using scan_klines_extremes(1) [OF caught, of "[]" 0] by (simp add: lowest_def)
  then have scan: "scan_klines w (Fin 0) PInf = (Inr (Fin 0, PInf), snd (scan_klines w (Fin 0) PInf))"
    by (cases "scan_klines w (Fin 0) PInf") simp
  have "fst (generate_breakout_signal m symbol n) = breakout_label p (Fin 0) PInf"
    using generate_breakout_signal_result [OF feed n ticker price w scan] by simp
  with ends positive show ?thesis by (simp add: breakout_label_def)
qed

theorem generate_breakout_signal_all_malformed_witness:
  "fst (scan_klines [junk_row, short_row] (Fin 0) PInf) = Inr (Fin 0, PInf) \<and>
   fst (generate_breakout_signal (feed_of [junk_row, short_row] 3) ''ETHUSDT'' 2)
     = ''Breakout Rialzista''"
  using generate_breakout_signal_all_malformed [where m = "feed_of [junk_row, short_row] 3"
      and symbol = "''ETHUSDT''" and history = "[junk_row, short_row]" and n = 2 and p = "Fin 3"
      and ticker = "[(''symbol'', Junk), (''price'', Num (Fin 3))]" and w = "[junk_row, short_row]"]
  by (simp add: run)

text \<open>
  C9 as stated fails: a window whose only row has a high that is not text (a JSON null)
  is a window in which every row fails to parse, but \<^verbatim>\<open>float\<close> raises TypeError, which
  the loop does not catch, and with the price 3 the call answers the internal-error
  message, not "Breakout Rialzista".
\<close>

theorem generate_breakout_signal_null_row_counterexample:
  "parsed null_row = None \<and>
   fst (scan_klines [null_row] (Fin 0) PInf) = Inl TypeError \<and>
   fst (generate_breakout_signal (feed_of [null_row] 3) ''ETHUSDT'' 1)
     = ''Errore interno nel calcolo breakout.''"
  by (simp add: run)

text \<open>
  C5 (as amended). The final comparison answers "Breakout Rialzista" exactly when the
  price is strictly above the highest high, otherwise "Breakout Ribassista" exactly when
  the price is strictly below the lowest low, otherwise "Consolidamento". A price equal
  to the highest high never gives the bullish label; it gives "Consolidamento" when the
  lowest low is not above the highest high, which is so for every fetched window holding
  a well-formed row and whose well-formed rows are finite with \<open>low \<le> high\<close>.
\<close>

theorem breakout_label_strict:
  "(breakout_label p hh ll = ''Breakout Rialzista'' \<longleftrightarrow> py_gt p hh) \<and>
   (breakout_label p hh ll = ''Breakout Ribassista'' \<longleftrightarrow> \<not> py_gt p hh \<and> py_lt p ll) \<and>
   (breakout_label p hh ll = ''Consolidamento'' \<longleftrightarrow> \<not> py_gt p hh \<and> \<not> py_lt p ll) \<and>
   breakout_label hh hh ll \<noteq> ''Breakout Rialzista'' \<and>
   (py_le l hh \<longrightarrow> breakout_label hh hh l = ''Consolidamento'') \<and>
   (klines_of m (py_upper symbol) = Inr history \<and> 0 < n \<and> n \<le> int (length history) \<and>
    ticker_of m (py_upper symbol) = Inr ticker \<and>
    map_of ticker ''price'' = Some (Num (Fin price)) \<and>
    w = drop (length history - nat n) history \<and> (\<forall>k \<in> set w. \<not> aborting k) \<and>
    well_formed_rows w = map fin_row rows \<and>
    rows \<noteq> [] \<and> (\<forall>r \<in> set rows. snd r \<le> fst r) \<and>
    price = Max (insert 0 (fst ` set rows))
    \<longrightarrow> fst (generate_breakout_signal m symbol n) = ''Consolidamento'')"
proof -
  have irrefl: "\<not> py_lt x x" for x by (cases x) simp_all
  have asym: "py_le a b \<Longrightarrow> \<not> py_lt b a" for a b
    by (cases a; cases b) (auto simp: py_le_def)
  have cases: "(breakout_label p hh ll = ''Breakout Rialzista'' \<longleftrightarrow> py_gt p hh) \<and>
   (breakout_label p hh ll = ''Breakout Ribassista'' \<longleftrightarrow> \<not> py_gt p hh \<and> py_lt p ll) \<and>
   (breakout_label p hh ll = ''Consolidamento'' \<longleftrightarrow> \<not> py_gt p hh \<and> \<not> py_lt p ll)"
    by (simp add: breakout_label_def)
  have boundary: "breakout_label hh hh ll \<noteq> ''Breakout Rialzista''"
    "py_le l hh \<longrightarrow> breakout_label hh hh l = ''Consolidamento''"
    using irrefl [of hh] asym [of l hh] by (simp_all add: breakout_label_def py_gt_def)
  have window: "fst (generate_breakout_signal m symbol n) = ''Consolidamento''"
    if feed: "klines_of m (py_upper symbol) = Inr history" and n: "0 < n" "n \<le> int (length history)"
      and ticker: "ticker_of m (py_upper symbol) = Inr ticker"
      and price: "map_of ticker ''price'' = Some (Num (Fin price))"
      and w: "w = drop (length history - nat n) history"
      and caught: "\<forall>k \<in> set w. \<not> aborting k"
      and parsed: "well_formed_rows w = map fin_row rows"
      and rows: "rows \<noteq> []" "\<forall>r \<in> set rows. snd r \<le> fst r"
      and eq: "price = Max (insert 0 (fst ` set rows))"
  proof -
    have ends: "fst (scan_klines w (Fin 0) PInf) =
        Inr (Fin (Max (insert 0 (fst ` set rows))), lowest (map snd rows))"
      using caught parsed by (rule scan_klines_extremes(1))
    then have scan: "scan_klines w (Fin 0) PInf =
        (Inr (Fin (Max (insert 0 (fst ` set rows))), lowest (map snd rows)),
         snd (scan_klines w (Fin 0) PInf))"
      by (cases "scan_klines w (Fin 0) PInf") simp
    have "fst (generate_breakout_signal m symbol n) =
           breakout_label (Fin price) (Fin (Max (insert 0 (fst ` set rows))))
             (lowest (map snd rows))"
      using generate_breakout_signal_result [OF feed n ticker price w scan] by simp
    moreover have "\<not> py_lt (Fin (Max (insert 0 (fst ` set rows)))) (lowest (map snd rows))"
      using rows by (rule lowest_le_highest)
    ultimately show ?thesis unfolding eq breakout_label_def py_gt_def by simp
  qed
  from cases boundary window show ?thesis by blast
qed

theorem breakout_label_strict_witness:
  "py_le (Fin 5) (Fin 12) \<and> breakout_label (Fin 12) (Fin 12) (Fin 5) = ''Consolidamento'' \<and>
   fst (generate_breakout_signal (feed_of window_one_skipped 12) ''ETHUSDT'' 5) = ''Consolidamento''"
  using breakout_label_strict [where m = "feed_of window_one_skipped 12"
      and symbol = "''ETHUSDT''" and history = window_one_skipped and n = 5 and price = 12
      and ticker = "[(''symbol'', Junk), (''price'', Num (Fin 12))]" and w = window_one_skipped
      and rows = "[(10, 5), (12, 6), (11, 7), (9, 8)]" and l = "Fin 5" and hh = "Fin 12"]
  by (simp add: run py_le_def)

text \<open>
  C5 as stated fails: a price equal to the highest high does not always give
  "Consolidamento". With one row of high 1 and low 2 and the price 1, and with one
  unparseable row (extremes 0.0 and \<^verbatim>\<open>float('inf')\<close>) and the price 0, the price equals
  the highest high and the answer is "Breakout Ribassista".
\<close>

theorem breakout_label_equal_high_counterexample:
  "fst (scan_klines [candle 1 1 2 1 1] (Fin 0) PInf) = Inr (Fin 1, Fin 2) \<and>
   fst (generate_breakout_signal (feed_of [candle 1 1 2 1 1] 1) ''ETHUSDT'' 1)
     = ''Breakout Ribassista'' \<and>
   fst (scan_klines [junk_row] (Fin 0) PInf) = Inr (Fin 0, PInf) \<and>
   fst (generate_breakout_signal (feed_of [junk_row] 0) ''ETHUSDT'' 1) = ''Breakout Ribassista''"
  by (simp add: run)




end
